theory Spec2Isabelle
  imports Main "HOL-Library.AList"
begin

section \<open>Python values used by the rendering engine\<close>

text \<open>
  The exceptions that the modelled code can meet. \<open>ValueError\<close> and \<open>OverflowError\<close>
  come from \<open>datetime.date\<close> and \<open>datetime.timedelta\<close>, \<open>IndexError\<close> and
  \<open>AttributeError\<close> from formatting a cell; \<open>OSError\<close>,
  \<open>InvalidFile\<close> and \<open>KeyError\<close> from the file system and the workbook reader.
\<close>

datatype py_error =
  ValueError | OverflowError | IndexError | AttributeError | KeyError | OSError | InvalidFile

subsection \<open>\<open>datetime.date\<close> and \<open>datetime.timedelta\<close>\<close>

text \<open>
  A \<open>datetime.date\<close> is represented by its proleptic Gregorian ordinal
  (\<open>date.toordinal()\<close>: 0001-01-01 is day 1, 9999-12-31 is day 3652059). The
  functions below follow the arithmetic of the standard library: the constructor checks
  year, month and day, \<open>timedelta\<close> refuses more than 999999999 days, and adding a
  \<open>timedelta\<close> to a \<open>date\<close> raises \<open>OverflowError\<close> when the result leaves
  the range of ordinals.
\<close>

datatype date = Date (toordinal: int)

definition MINYEAR :: int where "MINYEAR = 1"
definition MAXYEAR :: int where "MAXYEAR = 9999"
definition MAXORDINAL :: int where "MAXORDINAL = 3652059"

definition is_leap :: "int \<Rightarrow> bool" where
  "is_leap year = (year mod 4 = 0 \<and> (year mod 100 \<noteq> 0 \<or> year mod 400 = 0))"

definition days_before_year :: "int \<Rightarrow> int" where
  "days_before_year year =
     (let y = year - 1 in y * 365 + y div 4 - y div 100 + y div 400)"

definition DAYS_IN_MONTH :: "int list" where
  "DAYS_IN_MONTH = [31, 28, 31, 30, 31, 30, 31, 31, 30, 31, 30, 31]"

definition DAYS_BEFORE_MONTH :: "int list" where
  "DAYS_BEFORE_MONTH = [0, 31, 59, 90, 120, 151, 181, 212, 243, 273, 304, 334]"

text \<open>Both take a month in 1..12; the callers check that.\<close>

definition days_in_month :: "int \<Rightarrow> int \<Rightarrow> int" where
  "days_in_month year month =
     (if month = 2 \<and> is_leap year then 29 else DAYS_IN_MONTH ! nat (month - 1))"

definition days_before_month :: "int \<Rightarrow> int \<Rightarrow> int" where
  "days_before_month year month =
     DAYS_BEFORE_MONTH ! nat (month - 1) + (if month > 2 \<and> is_leap year then 1 else 0)"

text \<open>\<open>date(year, month, day)\<close>: \<open>ValueError\<close> outside the calendar.\<close>

definition mk_date :: "int \<Rightarrow> int \<Rightarrow> int \<Rightarrow> py_error + date" where
  "mk_date year month day =
     (if \<not> (MINYEAR \<le> year \<and> year \<le> MAXYEAR) then Inl ValueError
      else if \<not> (1 \<le> month \<and> month \<le> 12) then Inl ValueError
      else if \<not> (1 \<le> day \<and> day \<le> days_in_month year month) then Inl ValueError
      else Inr (Date (days_before_year year + days_before_month year month + day)))"

text \<open>\<open>date.weekday()\<close>: Monday is 0, Sunday is 6.\<close>

definition weekday :: "date \<Rightarrow> int" where
  "weekday d = (toordinal d + 6) mod 7"

text \<open>
  A \<open>timedelta\<close> built from whole days and weeks is its number of days;
  \<open>timedelta(days=d, weeks=w)\<close> raises \<open>OverflowError\<close> beyond 999999999 days.
\<close>

definition timedelta :: "int \<Rightarrow> int \<Rightarrow> py_error + int" where
  "timedelta days weeks =
     (let d = days + 7 * weeks
      in if \<bar>d\<bar> > 999999999 then Inl OverflowError else Inr d)"

definition date_add :: "date \<Rightarrow> int \<Rightarrow> py_error + date" where
  "date_add d delta =
     (let ord = toordinal d + delta
      in if 0 < ord \<and> ord \<le> MAXORDINAL then Inr (Date ord) else Inl OverflowError)"

text \<open>\<open>date - timedelta\<close> is \<open>date + timedelta(-days)\<close>.\<close>

definition date_sub :: "date \<Rightarrow> int \<Rightarrow> py_error + date" where
  "date_sub d delta = date_add d (- delta)"

text \<open>
  The year, month and day of a date, by the library's own algorithm (400-, 100-, 4- and
  1-year cycles, then an estimate of the month that is corrected downwards).
\<close>

definition ord2ymd :: "int \<Rightarrow> int \<times> int \<times> int" where
  "ord2ymd ordinal =
     (let n = ordinal - 1;
          n400 = n div 146097; n = n mod 146097;
          year = n400 * 400 + 1;
          n100 = n div 36524; n = n mod 36524;
          n4 = n div 1461; n = n mod 1461;
          n1 = n div 365; n = n mod 365;
          year = year + n100 * 100 + n4 * 4 + n1
      in if n1 = 4 \<or> n100 = 4 then (year - 1, 12, 31)
         else
           let leapyear = (n1 = 3 \<and> (n4 \<noteq> 24 \<or> n100 = 3));
               month = (n + 50) div 32;
               preceding = DAYS_BEFORE_MONTH ! nat (month - 1)
                           + (if month > 2 \<and> leapyear then 1 else 0)
           in if preceding > n
              then
                let month = month - 1;
                    preceding = preceding
                      - (DAYS_IN_MONTH ! nat (month - 1)
                         + (if month = 2 \<and> leapyear then 1 else 0))
                in (year, month, n - preceding + 1)
              else (year, month, n - preceding + 1))"

subsection \<open>Sequencing of computations that may raise\<close>

definition bind_err :: "py_error + 'a \<Rightarrow> ('a \<Rightarrow> py_error + 'b) \<Rightarrow> py_error + 'b" where
  "bind_err m f = (case m of Inl e \<Rightarrow> Inl e | Inr x \<Rightarrow> f x)"

text \<open>A list comprehension whose body may raise stops at the first exception.\<close>

fun mapM_err :: "('a \<Rightarrow> py_error + 'b) \<Rightarrow> 'a list \<Rightarrow> py_error + 'b list" where
  "mapM_err f [] = Inr []"
| "mapM_err f (x # xs) =
     (case f x of
        Inl e \<Rightarrow> Inl e
      | Inr y \<Rightarrow> (case mapM_err f xs of Inl e \<Rightarrow> Inl e | Inr ys \<Rightarrow> Inr (y # ys)))"

section \<open>Week Calendar Calculator\<close>

text \<open>
  \<open>get_week_dates(week_num, year)\<close>. The optional \<open>year\<close> defaults to the current
  year of the clock; here the caller passes it. Every \<open>date\<close> and \<open>timedelta\<close>
  operation of the source is a step that may raise.
\<close>

definition get_week_dates :: "int \<Rightarrow> int \<Rightarrow> py_error + date list" where
  "get_week_dates week_num year =
     bind_err (mk_date year 1 4) (\<lambda>jan_4.
     bind_err (timedelta (weekday jan_4) 0) (\<lambda>back.
     bind_err (date_sub jan_4 back) (\<lambda>week_1_monday.
     bind_err (timedelta 0 (week_num - 1)) (\<lambda>forward.
     bind_err (date_add week_1_monday forward) (\<lambda>target_monday.
       mapM_err (\<lambda>i. bind_err (timedelta i 0) (date_add target_monday)) [0, 1, 2, 3, 4, 5, 6])))))"

text \<open>
  The ordinal of the Monday that \<open>get_week_dates\<close> aims at, and the condition under
  which all seven days of that week are dates of the library.
\<close>

definition week_1_monday_ord :: "int \<Rightarrow> int" where
  "week_1_monday_ord year =
     (let j = days_before_year year + 4 in j - (j + 6) mod 7)"

definition target_monday_ord :: "int \<Rightarrow> int \<Rightarrow> int" where
  "target_monday_ord week_num year = week_1_monday_ord year + 7 * (week_num - 1)"

definition week_representable :: "int \<Rightarrow> int \<Rightarrow> bool" where
  "week_representable week_num year =
     (MINYEAR \<le> year \<and> year \<le> MAXYEAR
      \<and> 0 < target_monday_ord week_num year
      \<and> target_monday_ord week_num year + 6 \<le> MAXORDINAL)"

section \<open>Strings\<close>

text \<open>
  Python strings are modelled as \<open>string\<close>; the texts that the rendering engine
  produces itself are ASCII. \<open>str_int\<close> is \<open>str\<close> on an integer,
  \<open>join\<close> is \<open>sep.join(xs)\<close>.
\<close>

definition digit_char :: "nat \<Rightarrow> char" where
  "digit_char d = char_of (48 + d)"

fun str_nat :: "nat \<Rightarrow> string" where
  "str_nat n = (if n < 10 then [digit_char n] else str_nat (n div 10) @ [digit_char (n mod 10)])"

declare str_nat.simps [simp del]

definition str_int :: "int \<Rightarrow> string" where
  "str_int i = (if i < 0 then CHR ''-'' # str_nat (nat (- i)) else str_nat (nat i))"

fun join :: "string \<Rightarrow> string list \<Rightarrow> string" where
  "join sep [] = []"
| "join sep [x] = x"
| "join sep (x # y # ys) = x @ sep @ join sep (y # ys)"

definition dquote :: string where
  "dquote = [CHR 0x22]"

definition newline :: string where
  "newline = [CHR 0x0A]"

text \<open>\<open>s.isdigit()\<close> and \<open>int(s)\<close> on a string of ASCII decimal digits.\<close>

definition isdigit :: "string \<Rightarrow> bool" where
  "isdigit s = (s \<noteq> [] \<and> list_all (\<lambda>c. 48 \<le> (of_char c :: nat) \<and> (of_char c :: nat) \<le> 57) s)"

definition int_of_digits :: "string \<Rightarrow> int" where
  "int_of_digits s = foldl (\<lambda>acc c. 10 * acc + (int (of_char c) - 48)) 0 s"

text \<open>
  \<open>xs[i]\<close>: a negative index counts from the end, an index outside the list raises
  \<open>IndexError\<close>.
\<close>

definition list_get :: "'a list \<Rightarrow> int \<Rightarrow> py_error + 'a" where
  "list_get xs i =
     (if 0 \<le> i \<and> i < int (length xs) then Inr (xs ! nat i)
      else if i < 0 \<and> - int (length xs) \<le> i then Inr (xs ! nat (int (length xs) + i))
      else Inl IndexError)"

section \<open>Cells and sheets\<close>

text \<open>
  The value of a cell as the workbook reader hands it over: \<open>None\<close>, a string (a
  formula is a string that starts with \<open>=\<close>), a \<open>date\<close>, a \<open>datetime\<close> (of which the
  code uses the \<open>.date()\<close> only), a \<open>time\<close>, or any other value (number, boolean,
  duration), which the code only ever turns into text: \<open>VOther\<close> carries that
  \<open>str(value)\<close>.
\<close>

datatype cell_value =
    VNone
  | VStr string
  | VDate date
  | VDateTime date
  | VTime
  | VOther string

text \<open>
  The formatting that \<open>get_cell_style\<close> reads. \<open>fill_rgb\<close> is
  \<open>cell.fill.start_color.rgb\<close> and \<open>font_rgb\<close> is \<open>cell.font.color.rgb\<close>:
  \<open>None\<close> when the fill (font) or its colour is absent, when the attribute is
  \<open>None\<close>, or when reading it raises, which the source swallows.
  \<open>font_bold\<close> and \<open>font_italic\<close> are the truth values of \<open>cell.font.bold\<close>
  and \<open>cell.font.italic\<close> (false without a font), the alignments are \<open>None\<close>
  without an alignment.
\<close>

record cell =
  cell_value :: cell_value
  fill_rgb :: "string option"
  font_rgb :: "string option"
  font_bold :: bool
  font_italic :: bool
  align_horizontal :: "string option"
  align_vertical :: "string option"

record merge_range =
  min_row :: int
  max_row :: int
  min_col :: int
  max_col :: int

text \<open>
  A worksheet: \<open>ws_cell ws row col\<close> is \<open>ws.cell(row, col)\<close> (a coordinate without
  content gives an empty cell), \<open>ws_max_row\<close> is \<open>ws.max_row\<close> and
  \<open>merged_ranges\<close> is \<open>ws.merged_cells.ranges\<close> in the order of iteration.
\<close>

record worksheet =
  ws_cell :: "int \<Rightarrow> int \<Rightarrow> cell"
  ws_max_row :: int
  merged_ranges :: "merge_range list"

section \<open>Date Cell Reconstructor\<close>

definition jours :: "string list" where
  "jours = [''Lundi'', ''Mardi'', ''Mercredi'', ''Jeudi'', ''Vendredi'', ''Samedi'', ''Dimanche'']"

definition pad2 :: "int \<Rightarrow> string" where
  "pad2 n = (if n < 10 then CHR ''0'' # str_int n else str_int n)"

definition pad4 :: "int \<Rightarrow> string" where
  "pad4 n = replicate (4 - length (str_int n)) (CHR ''0'') @ str_int n"

text \<open>
  \<open>day_date.strftime("%d-%m-%Y")\<close>. The year is written with four digits; for years
  below 1000 the padding is the choice of the platform's C library, here it is padded.
\<close>

definition strftime_dmY :: "date \<Rightarrow> string" where
  "strftime_dmY d =
     (case ord2ymd (toordinal d) of
        (year, month, day) \<Rightarrow> pad2 day @ ''-'' @ pad2 month @ ''-'' @ pad4 year)"

definition format_date_cell :: "date \<Rightarrow> string" where
  "format_date_cell day_date =
     (let day_name = jours ! nat (weekday day_date);
          date_str = strftime_dmY day_date
      in day_name @ ''<br/>'' @ date_str)"

definition is_formula :: "cell_value \<Rightarrow> bool" where
  "is_formula v = (case v of VStr s \<Rightarrow> s \<noteq> [] \<and> hd s = CHR ''='' | _ \<Rightarrow> False)"

definition is_blank :: "cell_value \<Rightarrow> bool" where
  "is_blank v = (v = VNone \<or> v = VStr [])"

text \<open>
  The test \<open>is_date_row and col_idx == 1 and week_dates and row_idx\<close>, which both
  reconstruction branches make: \<open>week_dates\<close> must be a non-empty list and
  \<open>row_idx\<close> a non-zero number. When it holds, the list and the row are returned.
\<close>

definition date_zone ::
  "bool \<Rightarrow> int option \<Rightarrow> date list option \<Rightarrow> int option \<Rightarrow> (date list \<times> int) option" where
  "date_zone is_date_row col_idx week_dates row_idx =
     (case (week_dates, row_idx) of
        (Some ds, Some r) \<Rightarrow>
          if is_date_row \<and> col_idx = Some 1 \<and> ds \<noteq> [] \<and> r \<noteq> 0 then Some (ds, r) else None
      | _ \<Rightarrow> None)"

text \<open>
  The body of the \<open>try\<close> of \<open>format_cell_value\<close>. A \<open>time\<close> value has
  \<open>strftime\<close> but neither \<open>date()\<close> nor \<open>weekday()\<close>, so formatting it raises.
\<close>

definition format_cell_value_try ::
  "cell_value \<Rightarrow> int option \<Rightarrow> int option \<Rightarrow> date list option \<Rightarrow> bool \<Rightarrow> py_error + string" where
  "format_cell_value_try v row_idx col_idx week_dates is_date_row =
     (if is_formula v then
        (case date_zone is_date_row col_idx week_dates row_idx of
           Some (ds, r) \<Rightarrow>
             (let day_index = (r - 2) mod 7
              in if 0 \<le> day_index \<and> day_index < 7
                 then bind_err (list_get ds day_index) (\<lambda>d. Inr (format_date_cell d))
                 else Inr [])
         | None \<Rightarrow> Inr [])
      else
        (case v of
           VDate d \<Rightarrow> Inr (format_date_cell d)
         | VDateTime d \<Rightarrow> Inr (format_date_cell d)
         | VTime \<Rightarrow> Inl AttributeError
         | _ \<Rightarrow>
           (let fallback = (case v of VStr s \<Rightarrow> Inr s | VOther s \<Rightarrow> Inr s | _ \<Rightarrow> Inr [])
            in if is_blank v then
                 (case date_zone is_date_row col_idx week_dates row_idx of
                    Some (ds, r) \<Rightarrow>
                      (let day_index = (r - 2) mod 7
                       in if 0 \<le> day_index \<and> day_index < 7
                          then bind_err (list_get ds day_index) (\<lambda>d. Inr (format_date_cell d))
                          else fallback)
                  | None \<Rightarrow> fallback)
               else fallback)))"

text \<open>The bare \<open>except\<close> turns every exception into the empty string.\<close>

definition format_cell_value ::
  "cell_value \<Rightarrow> int option \<Rightarrow> int option \<Rightarrow> date list option \<Rightarrow> bool \<Rightarrow> string" where
  "format_cell_value v row_idx col_idx week_dates is_date_row =
     (case format_cell_value_try v row_idx col_idx week_dates is_date_row of
        Inl e \<Rightarrow> []
      | Inr s \<Rightarrow> s)"

section \<open>Style Extractor\<close>

text \<open>\<open>str(rgb)[-6:] if len(str(rgb)) > 6 else str(rgb)\<close>\<close>

definition hex_color_of :: "string \<Rightarrow> string" where
  "hex_color_of rgb = (if length rgb > 6 then drop (length rgb - 6) rgb else rgb)"

text \<open>The list \<open>styles\<close> as \<open>get_cell_style\<close> has built it before joining.\<close>

definition cell_styles :: "cell \<Rightarrow> string list" where
  "cell_styles c =
     (let styles = [];
          styles = (case fill_rgb c of
                      Some rgb \<Rightarrow>
                        if rgb \<noteq> [] \<and> rgb \<noteq> ''00000000'' then
                          (let hex_color = hex_color_of rgb
                           in if hex_color \<noteq> ''000000''
                              then styles @ [''background-color: #'' @ hex_color]
                              else styles)
                        else styles
                    | None \<Rightarrow> styles);
          styles = (case font_rgb c of
                      Some rgb \<Rightarrow>
                        if rgb \<noteq> [] \<and> rgb \<noteq> ''00000000'' then
                          (let hex_color = hex_color_of rgb
                           in if hex_color \<noteq> ''000000''
                              then styles @ [''color: #'' @ hex_color]
                              else styles)
                        else styles
                    | None \<Rightarrow> styles);
          styles = (if font_bold c then styles @ [''font-weight: bold''] else styles);
          styles = (if font_italic c then styles @ [''font-style: italic''] else styles);
          styles = (if align_horizontal c = Some ''center''
                    then styles @ [''text-align: center''] else styles);
          styles = (if align_vertical c = Some ''center''
                    then styles @ [''vertical-align: middle''] else styles)
      in styles)"

definition get_cell_style :: "cell \<Rightarrow> string" where
  "get_cell_style c = join ''; '' (cell_styles c)"

section \<open>Date Row Detector\<close>

definition has_strftime :: "cell_value \<Rightarrow> bool" where
  "has_strftime v = (case v of VDate _ \<Rightarrow> True | VDateTime _ \<Rightarrow> True | VTime \<Rightarrow> True | _ \<Rightarrow> False)"

text \<open>The rows \<open>range(1, min(30, ws.max_row + 1))\<close> are scanned.\<close>

definition detect_date_rows :: "worksheet \<Rightarrow> int set" where
  "detect_date_rows ws =
     set (filter (\<lambda>row_idx.
            let v = cell_value (ws_cell ws row_idx 1)
            in has_strftime v \<or> is_formula v)
          [1 .. min 30 (ws_max_row ws + 1) - 1])"

section \<open>Merge Resolution Table\<close>

record merge_info =
  rowspan :: int
  colspan :: int
  is_main :: bool

text \<open>
  The key of the table is the coordinate of a cell. The source writes it as the A1 name
  \<open>get_column_letter(col) + str(row)\<close>, which is \<open>cell.coordinate\<close> and names one
  cell only; the model keeps the pair of row and column that the name stands for. For the
  columns that a workbook can hold (1 to 16384) \<open>get_column_letter\<close> does not raise.
\<close>

definition coordinate :: "int \<Rightarrow> int \<Rightarrow> int \<times> int" where
  "coordinate row col = (row, col)"

text \<open>The two nested loops over a range, in their order.\<close>

definition range_coords :: "merge_range \<Rightarrow> (int \<times> int) list" where
  "range_coords mr =
     concat (map (\<lambda>row. map (\<lambda>col. (row, col)) [min_col mr .. max_col mr])
                 [min_row mr .. max_row mr])"

definition range_entry :: "merge_range \<Rightarrow> int \<times> int \<Rightarrow> merge_info" where
  "range_entry mr rc =
     (case rc of (row, col) \<Rightarrow>
        \<lparr> rowspan = max_row mr - min_row mr + 1,
          colspan = max_col mr - min_col mr + 1,
          is_main = (row = min_row mr \<and> col = min_col mr) \<rparr>)"

definition add_range ::
  "merge_range \<Rightarrow> (int \<times> int \<rightharpoonup> merge_info) \<Rightarrow> (int \<times> int \<rightharpoonup> merge_info)" where
  "add_range mr d =
     fold (\<lambda>rc d. d(coordinate (fst rc) (snd rc) \<mapsto> range_entry mr rc)) (range_coords mr) d"

definition build_merged_cells_dict :: "merge_range list \<Rightarrow> (int \<times> int \<rightharpoonup> merge_info)" where
  "build_merged_cells_dict ranges = fold add_range ranges Map.empty"

section \<open>Grid Renderer\<close>

definition max_column :: int where "max_column = 20"
definition max_row_bound :: int where "max_row_bound = 29"

text \<open>
  The week dates of a sheet: when the name is a string of digits it is the week number,
  of the current year \<open>now_year\<close>; \<open>get_week_dates\<close> may raise.
\<close>

definition sheet_week_dates :: "int \<Rightarrow> string option \<Rightarrow> py_error + date list option" where
  "sheet_week_dates now_year sheet_name =
     (case sheet_name of
        None \<Rightarrow> Inr None
      | Some name \<Rightarrow>
          if name \<noteq> [] \<and> isdigit name
          then bind_err (get_week_dates (int_of_digits name) now_year) (\<lambda>ds. Inr (Some ds))
          else Inr None)"

text \<open>
  The test before \<open>continue\<close>: the coordinate is in the table and is not the main
  cell of its range.
\<close>

definition skip_cell :: "(int \<times> int \<rightharpoonup> merge_info) \<Rightarrow> int \<Rightarrow> int \<Rightarrow> bool" where
  "skip_cell merged_cells_dict row_idx col_idx =
     (case merged_cells_dict (coordinate row_idx col_idx) of
        Some info \<Rightarrow> \<not> is_main info
      | None \<Rightarrow> False)"

text \<open>
  One pass of the inner loop: \<open>None\<close> when the coordinate is skipped by
  \<open>continue\<close>, otherwise the \<open><td>\<close> line that is appended.
\<close>

definition render_cell ::
  "date list option \<Rightarrow> int set \<Rightarrow> (int \<times> int \<rightharpoonup> merge_info) \<Rightarrow> worksheet
   \<Rightarrow> int \<Rightarrow> int \<Rightarrow> string option" where
  "render_cell week_dates date_rows merged_cells_dict ws row_idx col_idx =
     (let c = ws_cell ws row_idx col_idx
      in if skip_cell merged_cells_dict row_idx col_idx
         then None
         else
           (let is_date_row = (row_idx \<in> date_rows \<or> (col_idx = 1 \<and> week_dates \<noteq> None));
                v = format_cell_value (cell_value c) (Some row_idx) (Some col_idx)
                      week_dates is_date_row;
                style = get_cell_style c;
                style_attr = (if style \<noteq> [] then '' style='' @ dquote @ style @ dquote else []);
                style_attr =
                  (case merged_cells_dict (coordinate row_idx col_idx) of
                     Some merge_info \<Rightarrow>
                       (let style_attr =
                              (if colspan merge_info > 1
                               then style_attr @ '' colspan='' @ dquote
                                      @ str_int (colspan merge_info) @ dquote
                               else style_attr)
                        in if rowspan merge_info > 1
                           then style_attr @ '' rowspan='' @ dquote
                                  @ str_int (rowspan merge_info) @ dquote
                           else style_attr)
                   | None \<Rightarrow> style_attr)
            in Some (''    <td'' @ style_attr @ ''>'' @ v @ ''</td>'')))"

text \<open>The lines that one pass of the outer loop appends.\<close>

definition render_row ::
  "date list option \<Rightarrow> int set \<Rightarrow> (int \<times> int \<rightharpoonup> merge_info) \<Rightarrow> worksheet
   \<Rightarrow> int \<Rightarrow> string list" where
  "render_row week_dates date_rows merged_cells_dict ws row_idx =
     [''  <tr>'']
     @ List.map_filter (render_cell week_dates date_rows merged_cells_dict ws row_idx)
         [1 .. max_column]
     @ [''  </tr>'']"

text \<open>The list \<open>html\<close> at the end of \<open>sheet_to_html\<close>, once the week dates are known.\<close>

definition sheet_html_lines :: "date list option \<Rightarrow> worksheet \<Rightarrow> string list" where
  "sheet_html_lines week_dates ws =
     (let date_rows = detect_date_rows ws;
          merged_cells_dict = build_merged_cells_dict (merged_ranges ws)
      in [''<table class='' @ dquote @ ''excel-table'' @ dquote @ ''>'']
         @ concat (map (render_row week_dates date_rows merged_cells_dict ws)
                     [1 .. max_row_bound])
         @ [''</table>''])"

definition sheet_to_html :: "int \<Rightarrow> worksheet \<Rightarrow> string option \<Rightarrow> py_error + string" where
  "sheet_to_html now_year ws sheet_name =
     bind_err (sheet_week_dates now_year sheet_name) (\<lambda>week_dates.
       Inr (join newline (sheet_html_lines week_dates ws)))"

section \<open>Sheet Render Cache\<close>

text \<open>
  A Python \<open>dict\<close> from sheet name to markup, in insertion order. The two globals
  \<open>sheets_cache\<close> and \<open>sheets_cache_mtime\<close> are the state; the time stamp is only
  compared for equality, so its type is left open.
\<close>

type_synonym sheets_dict = "(string \<times> string) list"

record 't cache =
  sheets_cache :: sheets_dict
  sheets_cache_mtime :: 't

text \<open>
  What a call meets outside the program: the result of \<open>file_path.stat().st_mtime\<close>,
  of \<open>openpyxl.load_workbook\<close> (the sheets by name, in the order of
  \<open>wb.sheetnames\<close>), of \<open>wb.close()\<close>, and the current year of the clock. The lines
  that the source prints to the log are left out.
\<close>

record 't file_env =
  st_mtime :: "py_error + 't"
  load_workbook :: "py_error + (string \<times> worksheet) list"
  wb_close :: "py_error + unit"
  now_year :: int

text \<open>
  Statements that read and write the globals and may raise: a statement maps the state
  to its outcome and the state it leaves. An exception keeps the assignments already
  made; nothing is rolled back.
\<close>

type_synonym ('t, 'a) stmt = "'t cache \<Rightarrow> (py_error + 'a) \<times> 't cache"

definition return_st :: "'a \<Rightarrow> ('t, 'a) stmt" where
  "return_st x = (\<lambda>s. (Inr x, s))"

definition lift_st :: "py_error + 'a \<Rightarrow> ('t, 'a) stmt" where
  "lift_st m = (\<lambda>s. (m, s))"

definition bind_st :: "('t, 'a) stmt \<Rightarrow> ('a \<Rightarrow> ('t, 'b) stmt) \<Rightarrow> ('t, 'b) stmt" where
  "bind_st m f = (\<lambda>s. case m s of (Inl e, s') \<Rightarrow> (Inl e, s') | (Inr x, s') \<Rightarrow> f x s')"

definition read_globals :: "('t, 't cache) stmt" where
  "read_globals = (\<lambda>s. (Inr s, s))"

definition assign_sheets_cache :: "sheets_dict \<Rightarrow> ('t, unit) stmt" where
  "assign_sheets_cache d = (\<lambda>s. (Inr (), s\<lparr>sheets_cache := d\<rparr>))"

definition assign_sheets_cache_mtime :: "'t \<Rightarrow> ('t, unit) stmt" where
  "assign_sheets_cache_mtime t = (\<lambda>s. (Inr (), s\<lparr>sheets_cache_mtime := t\<rparr>))"

text \<open>The loop over \<open>wb.sheetnames\<close>, filling the local \<open>sheets_html\<close>.\<close>

fun convert_sheets ::
  "int \<Rightarrow> (string \<times> worksheet) list \<Rightarrow> string list \<Rightarrow> sheets_dict \<Rightarrow> py_error + sheets_dict" where
  "convert_sheets year wb [] sheets_html = Inr sheets_html"
| "convert_sheets year wb (sheet_name # names) sheets_html =
     (case map_of wb sheet_name of
        None \<Rightarrow> Inl KeyError
      | Some ws \<Rightarrow>
          bind_err (sheet_to_html year ws (Some sheet_name)) (\<lambda>html.
            convert_sheets year wb names (AList.update sheet_name html sheets_html)))"

text \<open>The body of the \<open>try\<close> of \<open>convert_excel_file\<close>.\<close>

definition convert_try :: "'t file_env \<Rightarrow> ('t, sheets_dict) stmt" where
  "convert_try env =
     bind_st (lift_st (st_mtime env)) (\<lambda>current_mtime.
     bind_st read_globals (\<lambda>g.
       if sheets_cache g \<noteq> [] \<and> sheets_cache_mtime g = current_mtime
       then return_st (sheets_cache g)
       else
         bind_st (lift_st (load_workbook env)) (\<lambda>wb.
         bind_st (lift_st (convert_sheets (now_year env) wb (map fst wb) [])) (\<lambda>sheets_html.
         bind_st (lift_st (wb_close env)) (\<lambda>_.
         bind_st (assign_sheets_cache sheets_html) (\<lambda>_.
         bind_st (assign_sheets_cache_mtime current_mtime) (\<lambda>_.
         return_st sheets_html)))))))"

text \<open>
  \<open>convert_excel_file\<close>: the result and the globals after the call. The handler
  returns the empty mapping and touches no global.
\<close>

definition convert_excel_file :: "'t file_env \<Rightarrow> 't cache \<Rightarrow> sheets_dict \<times> 't cache" where
  "convert_excel_file env s =
     (case convert_try env s of
        (Inl e, s') \<Rightarrow> ([], s')
      | (Inr sheets_html, s') \<Rightarrow> (sheets_html, s'))"

section \<open>Conditions used in the statements\<close>


text \<open>
  The invariant of merge ranges in the data model: in every range the minimum is not above
  the maximum on both axes, and two different ranges of a sheet share no coordinate.
\<close>

definition in_merge_range :: "merge_range \<Rightarrow> int \<Rightarrow> int \<Rightarrow> bool" where
  "in_merge_range mr row col =
     (min_row mr \<le> row \<and> row \<le> max_row mr \<and> min_col mr \<le> col \<and> col \<le> max_col mr)"

definition ranges_overlap :: "merge_range \<Rightarrow> merge_range \<Rightarrow> bool" where
  "ranges_overlap a b =
     (max (min_row a) (min_row b) \<le> min (max_row a) (max_row b)
      \<and> max (min_col a) (min_col b) \<le> min (max_col a) (max_col b))"

definition merge_ranges_wellformed :: "merge_range list \<Rightarrow> bool" where
  "merge_ranges_wellformed ranges =
     (list_all (\<lambda>a. min_row a \<le> max_row a \<and> min_col a \<le> max_col a) ranges
      \<and> list_all (\<lambda>a. list_all (\<lambda>b. a = b \<or> \<not> ranges_overlap a b) ranges) ranges)"

text \<open>
  The steps of a conversion pass between reading the time stamp and assigning the cache
  (load the workbook, render every sheet, close the workbook), and the test that makes
  \<open>convert_excel_file\<close> serve the cache.
\<close>

definition render_all :: "'t file_env \<Rightarrow> py_error + sheets_dict" where
  "render_all env =
     bind_err (load_workbook env) (\<lambda>wb.
     bind_err (convert_sheets (now_year env) wb (map fst wb) []) (\<lambda>sheets_html.
     bind_err (wb_close env) (\<lambda>_. Inr sheets_html)))"


definition cache_hit :: "'t file_env \<Rightarrow> 't cache \<Rightarrow> bool" where
  "cache_hit env s =
     (case st_mtime env of
        Inl e \<Rightarrow> False
      | Inr current_mtime \<Rightarrow> sheets_cache s \<noteq> [] \<and> sheets_cache_mtime s = current_mtime)"

text \<open>
  A cell without content and with the default formatting of the workbook reader, and a
  sheet of such cells without merge ranges.
\<close>

definition empty_cell :: cell where
  "empty_cell = \<lparr> cell_value = VNone, fill_rgb = Some ''00000000'', font_rgb = None,
     font_bold = False, font_italic = False, align_horizontal = None,
     align_vertical = None \<rparr>"

definition empty_sheet :: worksheet where
  "empty_sheet = \<lparr> ws_cell = (\<lambda>row col. empty_cell), ws_max_row = 1, merged_ranges = [] \<rparr>"

text \<open>
  Two sheets agree on the window of the renderer: the same cell and the same entry of the
  merge resolution table at every coordinate of rows 1 to 29 and columns 1 to 20.
\<close>

definition window_agree :: "worksheet \<Rightarrow> worksheet \<Rightarrow> bool" where
  "window_agree ws1 ws2 =
     (\<forall>row \<in> {1 .. max_row_bound}. \<forall>col \<in> {1 .. max_column}.
        ws_cell ws1 row col = ws_cell ws2 row col
        \<and> build_merged_cells_dict (merged_ranges ws1) (coordinate row col)
          = build_merged_cells_dict (merged_ranges ws2) (coordinate row col))"

section \<open>Properties of the Week Calendar Calculator\<close>

lemma days_before_year_bounds:
  assumes "1 \<le> year" "year \<le> 9999"
  shows "0 \<le> days_before_year year" "days_before_year year \<le> 3651793"
    "year = 1 \<or> 365 \<le> days_before_year year"
proof -
  define y where "y = year - 1"
  have y: "0 \<le> y" "y \<le> 9998" using assms by (simp_all add: y_def)
  have d: "days_before_year year = y * 365 + y div 4 - y div 100 + y div 400"
    unfolding days_before_year_def y_def Let_def by (rule refl)
  have a: "y div 100 \<le> y div 4" using y(1) by (intro zdiv_mono2) simp_all
  have b: "0 \<le> y div 400" "0 \<le> y div 100" using y(1) by simp_all
  have c: "y div 4 \<le> 2499" "y div 400 \<le> 24" using y(2) by linarith+
  show "0 \<le> days_before_year year" using y a b unfolding d by linarith
  show "days_before_year year \<le> 3651793" using y a b c unfolding d by linarith
  show "year = 1 \<or> 365 \<le> days_before_year year"
  proof (cases "year = 1")
    case False
    with assms have "1 \<le> y" by (simp add: y_def)
    with a b have "365 \<le> days_before_year year" unfolding d by linarith
    then show ?thesis ..
  qed simp
qed

lemma date_add_ok:
  "0 < toordinal d + k \<Longrightarrow> toordinal d + k \<le> MAXORDINAL
   \<Longrightarrow> date_add d k = Inr (Date (toordinal d + k))"
  by (simp add: date_add_def Let_def)

lemma week_1_monday_ord_bounds:
  assumes "1 \<le> year" "year \<le> 9999"
  shows "0 < week_1_monday_ord year" "week_1_monday_ord year \<le> 3651797"
proof -
  let ?j = "days_before_year year + 4"
  have m: "0 \<le> (?j + 6) mod 7" "(?j + 6) mod 7 < 7" by simp_all
  from days_before_year_bounds[OF assms]
  have "year = 1 \<or> 365 \<le> days_before_year year" by simp
  then show "0 < week_1_monday_ord year"
  proof
    assume "year = 1"
    then show ?thesis by (simp add: week_1_monday_ord_def days_before_year_def)
  next
    assume "365 \<le> days_before_year year"
    with m show ?thesis unfolding week_1_monday_ord_def Let_def by linarith
  qed
  from days_before_year_bounds(2)[OF assms] m
  show "week_1_monday_ord year \<le> 3651797"
    unfolding week_1_monday_ord_def Let_def by linarith
qed

lemma week_1_monday_steps:
  assumes "1 \<le> year" "year \<le> 9999"
  shows "bind_err (mk_date year 1 4) (\<lambda>jan_4.
         bind_err (timedelta (weekday jan_4) 0) (\<lambda>back.
         bind_err (date_sub jan_4 back) k))
         = k (Date (week_1_monday_ord year))"
proof -
  let ?j = "days_before_year year + 4"
  have mk: "mk_date year 1 4 = Inr (Date ?j)"
    using assms
    by (simp add: mk_date_def MINYEAR_def MAXYEAR_def days_in_month_def
        days_before_month_def DAYS_IN_MONTH_def DAYS_BEFORE_MONTH_def)
  have m: "0 \<le> (?j + 6) mod 7" "(?j + 6) mod 7 < 7" by simp_all
  then have td: "timedelta (weekday (Date ?j)) 0 = Inr ((?j + 6) mod 7)"
    by (simp add: timedelta_def weekday_def Let_def)
  have w: "?j - (?j + 6) mod 7 = week_1_monday_ord year"
    by (simp add: week_1_monday_ord_def Let_def)
  from week_1_monday_ord_bounds[OF assms]
  have "0 < ?j - (?j + 6) mod 7" "?j - (?j + 6) mod 7 \<le> MAXORDINAL"
    unfolding w MAXORDINAL_def by linarith+
  then have "date_add (Date ?j) (- ((?j + 6) mod 7)) = Inr (Date (?j - (?j + 6) mod 7))"
    by (simp only: date_add_ok date.sel diff_conv_add_uminus)
  then have sub: "date_sub (Date ?j) ((?j + 6) mod 7) = Inr (Date (week_1_monday_ord year))"
    by (simp only: date_sub_def w)
  show ?thesis by (simp only: bind_err_def mk td sub sum.case)
qed

lemma week_days_ok:
  assumes "0 < m" "m + 6 \<le> MAXORDINAL"
  shows "mapM_err (\<lambda>i. bind_err (timedelta i 0) (date_add (Date m))) [0, 1, 2, 3, 4, 5, 6]
         = Inr [Date m, Date (m + 1), Date (m + 2), Date (m + 3), Date (m + 4),
                Date (m + 5), Date (m + 6)]"
  using assms by (simp add: bind_err_def timedelta_def date_add_def Let_def)


lemma get_week_dates_representable:
  assumes "week_representable week_num year"
  shows "get_week_dates week_num year =
         Inr (map (\<lambda>i. Date (target_monday_ord week_num year + i)) [0, 1, 2, 3, 4, 5, 6])"
proof -
  from assms have y: "1 \<le> year" "year \<le> 9999"
    and t: "0 < target_monday_ord week_num year"
           "target_monday_ord week_num year + 6 \<le> MAXORDINAL"
    by (simp_all add: week_representable_def MINYEAR_def MAXYEAR_def)
  from week_1_monday_ord_bounds[OF y] t
  have "\<bar>7 * (week_num - 1)\<bar> \<le> 999999999"
    unfolding target_monday_ord_def MAXORDINAL_def by linarith
  then have fw: "timedelta 0 (week_num - 1) = Inr (7 * (week_num - 1))"
    by (simp add: timedelta_def Let_def)
  from t have add: "date_add (Date (week_1_monday_ord year)) (7 * (week_num - 1))
      = Inr (Date (target_monday_ord week_num year))"
    unfolding target_monday_ord_def by (simp only: date_add_ok date.sel)
  have "get_week_dates week_num year =
      mapM_err (\<lambda>i. bind_err (timedelta i 0) (date_add (Date (target_monday_ord week_num year))))
        [0, 1, 2, 3, 4, 5, 6]"
    unfolding get_week_dates_def week_1_monday_steps[OF y]
    by (simp only: bind_err_def fw add sum.case)
  then show ?thesis
    by (simp only: week_days_ok[OF t] list.map add_0_right)
qed


lemma ordinary_weeks_representable:
  assumes "1 \<le> year" "year \<le> 9998" "1 \<le> week_num" "week_num \<le> 53"
  shows "week_representable week_num year"
proof -
  define y where "y = year - 1"
  have y: "0 \<le> y" "y \<le> 9997" using assms by (simp_all add: y_def)
  have d: "days_before_year year = y * 365 + y div 4 - y div 100 + y div 400"
    unfolding days_before_year_def y_def Let_def by (rule refl)
  have "0 \<le> y div 100" "y div 4 \<le> 2499" "y div 400 \<le> 24" using y by linarith+
  with y have "days_before_year year \<le> 3651428" unfolding d by linarith
  moreover have "0 \<le> (days_before_year year + 4 + 6) mod 7" by simp
  ultimately have "week_1_monday_ord year \<le> 3651432"
    unfolding week_1_monday_ord_def Let_def by linarith
  moreover have "0 < week_1_monday_ord year"
    using week_1_monday_ord_bounds(1) assms by simp
  ultimately have b: "week_1_monday_ord year \<le> 3651432" "0 < week_1_monday_ord year"
    by simp_all
  have "0 < week_1_monday_ord year + 7 * (week_num - 1)"
    using b(2) assms(3) by simp
  moreover have "week_1_monday_ord year + 7 * (week_num - 1) + 6 \<le> 3652059"
    using b(1) assms(4) by simp
  ultimately have "0 < week_1_monday_ord year + 7 * (week_num - 1)"
    "week_1_monday_ord year + 7 * (week_num - 1) + 6 \<le> 3652059" by simp_all
  with assms show ?thesis
    unfolding week_representable_def target_monday_ord_def
      MINYEAR_def MAXYEAR_def MAXORDINAL_def by simp
qed

lemma target_monday_is_monday: "weekday (Date (target_monday_ord week_num year)) = 0"
proof -
  define a where "a = days_before_year year + 4 + 6"
  have "target_monday_ord week_num year + 6 = a - a mod 7 + 7 * (week_num - 1)"
    by (simp add: target_monday_ord_def week_1_monday_ord_def Let_def a_def)
  also have "\<dots> = 7 * (a div 7 + (week_num - 1))"
    by (simp add: minus_mod_eq_mult_div distrib_left)
  finally have "(target_monday_ord week_num year + 6) mod 7 = 0" by (simp only: mod_mult_self1_is_0)
  then show ?thesis by (simp only: weekday_def date.sel)
qed

lemma jan_4_in_week_1:
  "Date (days_before_year year + 4)
   \<in> set (map (\<lambda>i. Date (target_monday_ord 1 year + i)) [0, 1, 2, 3, 4, 5, 6])"
proof -
  define j where "j = days_before_year year + 4"
  define r where "r = (j + 6) mod 7"
  have "0 \<le> r" "r < 7" by (simp_all add: r_def)
  then have "r = 0 \<or> r = 1 \<or> r = 2 \<or> r = 3 \<or> r = 4 \<or> r = 5 \<or> r = 6" by arith
  moreover have "target_monday_ord 1 year = j - r"
    by (simp add: target_monday_ord_def week_1_monday_ord_def Let_def j_def r_def)
  ultimately show ?thesis unfolding j_def[symmetric] by auto
qed

lemma mk_date_jan_4:
  "1 \<le> year \<Longrightarrow> year \<le> 9999
   \<Longrightarrow> mk_date year 1 4 = Inr (Date (days_before_year year + 4))"
  by (simp add: mk_date_def MINYEAR_def MAXYEAR_def days_in_month_def
      days_before_month_def DAYS_IN_MONTH_def DAYS_BEFORE_MONTH_def)

text \<open>
  C1 (as amended). For every positive week number and every year such that the seven days
  of the week are dates of the library (year in 1..9999, none of the days after
  9999-12-31), \<open>get_week_dates\<close> returns exactly seven dates, each one day after the
  previous one, the last six days after the first, the first a Monday, and for week 1
  the dates include January 4th of that year.
\<close>

theorem get_week_dates_week:
  assumes "0 < week_num" and "week_representable week_num year"
  shows "\<exists>ds. get_week_dates week_num year = Inr ds
           \<and> length ds = 7
           \<and> (\<forall>i<6. toordinal (ds ! Suc i) = toordinal (ds ! i) + 1)
           \<and> toordinal (last ds) = toordinal (hd ds) + 6
           \<and> weekday (hd ds) = 0
           \<and> (week_num = 1 \<longrightarrow> (\<exists>jan_4 \<in> set ds. mk_date year 1 4 = Inr jan_4))"
proof -
  let ?m = "target_monday_ord week_num year"
  let ?ds = "map (\<lambda>i. Date (?m + i)) [0, 1, 2, 3, 4, 5, 6]"
  have r: "get_week_dates week_num year = Inr ?ds"
    by (rule get_week_dates_representable[OF assms(2)])
  have step: "\<forall>i<6. toordinal (?ds ! Suc i) = toordinal (?ds ! i) + 1"
  proof (intro allI impI)
    fix i :: nat assume "i < 6"
    then have "i = 0 \<or> i = 1 \<or> i = 2 \<or> i = 3 \<or> i = 4 \<or> i = 5" by arith
    then show "toordinal (?ds ! Suc i) = toordinal (?ds ! i) + 1" by auto
  qed
  have mon: "weekday (hd ?ds) = 0"
    using target_monday_is_monday[of week_num year] by simp
  have jan: "week_num = 1 \<longrightarrow> (\<exists>jan_4 \<in> set ?ds. mk_date year 1 4 = Inr jan_4)"
  proof
    assume w: "week_num = 1"
    from assms(2) have "1 \<le> year" "year \<le> 9999"
      by (simp_all add: week_representable_def MINYEAR_def MAXYEAR_def)
    then have "mk_date year 1 4 = Inr (Date (days_before_year year + 4))"
      by (rule mk_date_jan_4)
    with jan_4_in_week_1[of year] show "\<exists>jan_4 \<in> set ?ds. mk_date year 1 4 = Inr jan_4"
      unfolding w by blast
  qed
  have "length ?ds = 7" "toordinal (last ?ds) = toordinal (hd ?ds) + 6" by simp_all
  with r step mon jan show ?thesis by blast
qed

theorem get_week_dates_week_witness:
  "(0::int) < 1 \<and> week_representable 1 2026
   \<and> (\<exists>ds. get_week_dates 1 2026 = Inr ds
           \<and> length ds = 7
           \<and> (\<forall>i<6. toordinal (ds ! Suc i) = toordinal (ds ! i) + 1)
           \<and> toordinal (last ds) = toordinal (hd ds) + 6
           \<and> weekday (hd ds) = 0
           \<and> ((1::int) = 1 \<longrightarrow> (\<exists>jan_4 \<in> set ds. mk_date 2026 1 4 = Inr jan_4)))"
proof -
  have h1: "(0::int) < 1" by simp
  have h2: "week_representable 1 2026"
    by (simp add: week_representable_def target_monday_ord_def week_1_monday_ord_def
        days_before_year_def MINYEAR_def MAXYEAR_def MAXORDINAL_def)
  from get_week_dates_week[OF h1 h2] h1 h2 show ?thesis by blast
qed

text \<open>
  The claim without the bound fails: week 1000000 of 2026 is a positive week number, and
  the source raises \<open>OverflowError\<close> when it adds that many weeks to a date.
\<close>

theorem get_week_dates_week_counterexample:
  "get_week_dates 1000000 2026 = Inl OverflowError"
  by (simp add: get_week_dates_def bind_err_def mk_date_def timedelta_def date_sub_def
      date_add_def weekday_def days_in_month_def days_before_month_def days_before_year_def
      DAYS_IN_MONTH_def DAYS_BEFORE_MONTH_def MINYEAR_def MAXYEAR_def MAXORDINAL_def)




section \<open>Properties of the Date Cell Reconstructor\<close>

lemma day_index_range: "0 \<le> (r - 2) mod 7 \<and> (r - 2) mod (7::int) < 7"
  by simp

lemma list_get_week:
  assumes "length ds = 7"
  shows "list_get ds ((r - 2) mod 7) = Inr (ds ! nat ((r - 2) mod 7))"
proof -
  have "0 \<le> (r - 2) mod 7" "(r - 2) mod 7 < 7" by simp_all
  with assms show ?thesis by (simp add: list_get_def Let_def)
qed

lemma date_zone_col_1:
  "ds \<noteq> [] \<Longrightarrow> r \<noteq> 0 \<Longrightarrow> date_zone True (Some 1) (Some ds) (Some r) = Some (ds, r)"
  by (simp add: date_zone_def)

lemma format_cell_value_reconstructs:
  assumes "is_formula v \<or> is_blank v" and "length ds = 7" and "r \<noteq> 0"
  shows "format_cell_value_try v (Some r) (Some 1) (Some ds) True
         = Inr (format_date_cell (ds ! nat ((r - 2) mod 7)))"
proof -
  from assms(2) have ne: "ds \<noteq> []" by auto
  note z = date_zone_col_1[OF ne assms(3)]
  show ?thesis
  proof (cases "is_formula v")
    case True
    then show ?thesis
      by (simp add: format_cell_value_try_def z Let_def list_get_week[OF assms(2)] bind_err_def)
  next
    case False
    with assms(1) have b: "is_blank v" by simp
    then have "v = VNone \<or> v = VStr []" by (simp add: is_blank_def)
    then show ?thesis
      using False b
      by (auto simp add: format_cell_value_try_def z Let_def list_get_week[OF assms(2)]
          bind_err_def)
  qed
qed

lemma format_date_cell_nonempty: "format_date_cell d \<noteq> []"
  by (simp add: format_date_cell_def Let_def)

text \<open>
  C3. Date reconstruction in column 1 has period 7 in the row index. For a formula or a
  blank cell of column 1 in a date row, with the seven week dates available and a row
  index from 1 on (rows are 1-indexed), the label is that of the week date at index
  \<open>(row - 2) mod 7\<close>: rows 2 and 9 receive the first week date, and rows \<open>r\<close>
  and \<open>r + 7\<close> receive the same label.
\<close>

theorem format_cell_value_periodic:
  assumes "1 \<le> r" and "is_formula v \<or> is_blank v" and "length ds = 7"
  shows "format_cell_value v (Some r) (Some 1) (Some ds) True
           = format_date_cell (ds ! nat ((r - 2) mod 7))
         \<and> format_cell_value v (Some 2) (Some 1) (Some ds) True = format_date_cell (ds ! 0)
         \<and> format_cell_value v (Some 9) (Some 1) (Some ds) True = format_date_cell (ds ! 0)
         \<and> format_cell_value v (Some (r + 7)) (Some 1) (Some ds) True
           = format_cell_value v (Some r) (Some 1) (Some ds) True"
proof -
  have a: "format_cell_value v (Some k) (Some 1) (Some ds) True
           = format_date_cell (ds ! nat ((k - 2) mod 7))" if "k \<noteq> 0" for k
    using format_cell_value_reconstructs[OF assms(2,3) that]
    by (simp add: format_cell_value_def)
  have p: "(r + 7 - 2) mod 7 = (r - 2) mod 7" by presburger
  from assms(1) have nz: "r \<noteq> 0" "r + 7 \<noteq> 0" by simp_all
  have r0: "format_cell_value v (Some r) (Some 1) (Some ds) True
      = format_date_cell (ds ! nat ((r - 2) mod 7))"
    by (rule a[OF nz(1)])
  have "format_cell_value v (Some (r + 7)) (Some 1) (Some ds) True
      = format_date_cell (ds ! nat ((r + 7 - 2) mod 7))"
    by (rule a[OF nz(2)])
  then have r7: "format_cell_value v (Some (r + 7)) (Some 1) (Some ds) True
      = format_cell_value v (Some r) (Some 1) (Some ds) True"
    by (simp only: p r0)
  have r2: "format_cell_value v (Some 2) (Some 1) (Some ds) True = format_date_cell (ds ! 0)"
    using a[of 2] by simp
  have r9: "format_cell_value v (Some 9) (Some 1) (Some ds) True = format_date_cell (ds ! 0)"
    using a[of 9] by simp
  from r0 r2 r9 r7 show ?thesis by (intro conjI)
qed

theorem format_cell_value_periodic_witness:
  "(1::int) \<le> 3 \<and> (is_formula (VStr ''=A2+1'') \<or> is_blank (VStr ''=A2+1''))
   \<and> length [Date 739923, Date 739924, Date 739925, Date 739926, Date 739927,
              Date 739928, Date 739929] = 7
   \<and> format_cell_value (VStr ''=A2+1'') (Some 10) (Some 1)
        (Some [Date 739923, Date 739924, Date 739925, Date 739926, Date 739927,
               Date 739928, Date 739929]) True
     = format_cell_value (VStr ''=A2+1'') (Some 3) (Some 1)
        (Some [Date 739923, Date 739924, Date 739925, Date 739926, Date 739927,
               Date 739928, Date 739929]) True
   \<and> format_cell_value (VStr ''=A2+1'') (Some 3) (Some 1)
        (Some [Date 739923, Date 739924, Date 739925, Date 739926, Date 739927,
               Date 739928, Date 739929]) True
     = format_date_cell (Date 739924)"
proof -
  let ?ds = "[Date 739923, Date 739924, Date 739925, Date 739926, Date 739927,
              Date 739928, Date 739929]"
  have h1: "(1::int) \<le> 3" by simp
  have h2: "is_formula (VStr ''=A2+1'') \<or> is_blank (VStr ''=A2+1'')"
    by (simp add: is_formula_def)
  have h3: "length ?ds = 7" by simp
  from format_cell_value_periodic[OF h1 h2 h3] h1 h2 h3 show ?thesis by simp
qed

text \<open>
  C9. For every integer row index, \<open>(row - 2) mod 7\<close> lies in 0..6, so the guard of
  the reconstruction branch always holds: a formula or blank cell of column 1 in a date
  row, with the seven week dates present and a non-zero row index, always receives the
  reconstructed date label (the \<open>try\<close> body returns it, nothing is raised), and that
  label is never the empty string.
\<close>

theorem day_index_guard_always_holds:
  assumes "is_formula v \<or> is_blank v" and "length ds = 7" and "r \<noteq> 0"
  shows "0 \<le> (r - 2) mod 7 \<and> (r - 2) mod 7 < 7
         \<and> format_cell_value_try v (Some r) (Some 1) (Some ds) True
             = Inr (format_date_cell (ds ! nat ((r - 2) mod 7)))
         \<and> format_cell_value v (Some r) (Some 1) (Some ds) True \<noteq> []"
proof -
  note t = format_cell_value_reconstructs[OF assms]
  then have "format_cell_value v (Some r) (Some 1) (Some ds) True
      = format_date_cell (ds ! nat ((r - 2) mod 7))"
    by (simp add: format_cell_value_def)
  with t format_date_cell_nonempty show ?thesis by simp
qed

theorem day_index_guard_always_holds_witness:
  "(is_formula VNone \<or> is_blank VNone)
   \<and> length [Date 739923, Date 739924, Date 739925, Date 739926, Date 739927,
              Date 739928, Date 739929] = 7
   \<and> (- 5::int) \<noteq> 0
   \<and> 0 \<le> (- 5 - 2) mod (7::int) \<and> (- 5 - 2) mod (7::int) < 7
   \<and> format_cell_value VNone (Some (- 5)) (Some 1)
        (Some [Date 739923, Date 739924, Date 739925, Date 739926, Date 739927,
               Date 739928, Date 739929]) True \<noteq> []"
proof -
  let ?ds = "[Date 739923, Date 739924, Date 739925, Date 739926, Date 739927,
              Date 739928, Date 739929]"
  have h1: "is_formula VNone \<or> is_blank VNone" by (simp add: is_blank_def)
  have h2: "length ?ds = 7" by simp
  have h3: "(- 5::int) \<noteq> 0" by simp
  from day_index_guard_always_holds[OF h1 h2 h3] h1 h2 h3 show ?thesis by simp
qed

section \<open>Properties of the Style Extractor\<close>






section \<open>Properties of the Merge Resolution Table\<close>

lemma set_range_coords:
  "(row, col) \<in> set (range_coords mr) \<longleftrightarrow> in_merge_range mr row col"
  by (simp add: range_coords_def in_merge_range_def image_iff)

lemma fold_upd_apply:
  "fold (\<lambda>rc d. d(rc \<mapsto> f rc)) ks d k = (if k \<in> set ks then Some (f k) else d k)"
  by (induction ks arbitrary: d) auto

lemma add_range_apply:
  "add_range mr d (coordinate row col)
   = (if in_merge_range mr row col then Some (range_entry mr (row, col))
      else d (coordinate row col))"
  by (simp add: add_range_def fold_upd_apply coordinate_def set_range_coords)

lemma build_snoc:
  "build_merged_cells_dict (xs @ [x]) = add_range x (build_merged_cells_dict xs)"
  by (simp add: build_merged_cells_dict_def)

lemma build_apply:
  assumes "mr \<in> set ranges" and "in_merge_range mr row col"
    and "\<forall>x\<in>set ranges. in_merge_range x row col \<longrightarrow> x = mr"
  shows "build_merged_cells_dict ranges (coordinate row col) = Some (range_entry mr (row, col))"
  using assms
proof (induction ranges rule: rev_induct)
  case Nil
  then show ?case by simp
next
  case (snoc x xs)
  show ?case
  proof (cases "in_merge_range x row col")
    case True
    with snoc.prems(3) have "x = mr" by simp
    with True show ?thesis by (simp only: build_snoc add_range_apply if_True)
  next
    case False
    with snoc.prems(1,2) have m: "mr \<in> set xs" by auto
    from snoc.prems(3) have u: "\<forall>y\<in>set xs. in_merge_range y row col \<longrightarrow> y = mr" by simp
    from snoc.IH[OF m snoc.prems(2) u] False show ?thesis
      by (simp only: build_snoc add_range_apply if_False)
  qed
qed

lemma build_outside:
  assumes "\<forall>x\<in>set ranges. \<not> in_merge_range x row col"
  shows "build_merged_cells_dict ranges (coordinate row col) = None"
  using assms
proof (induction ranges rule: rev_induct)
  case Nil
  then show ?case by (simp add: build_merged_cells_dict_def)
next
  case (snoc x xs)
  from snoc.prems have n: "\<not> in_merge_range x row col"
    and u: "\<forall>y\<in>set xs. \<not> in_merge_range y row col" by simp_all
  from snoc.IH[OF u] n show ?case by (simp only: build_snoc add_range_apply if_False)
qed

lemma overlap_of_common_cell:
  "in_merge_range a row col \<Longrightarrow> in_merge_range b row col \<Longrightarrow> ranges_overlap a b"
  by (auto simp add: in_merge_range_def ranges_overlap_def)

lemma wellformed_unique:
  assumes "merge_ranges_wellformed ranges" and "mr \<in> set ranges"
    and "in_merge_range mr row col"
  shows "\<forall>x\<in>set ranges. in_merge_range x row col \<longrightarrow> x = mr"
proof (intro ballI impI)
  fix x assume x: "x \<in> set ranges" "in_merge_range x row col"
  from assms(1) x(1) assms(2) have "x = mr \<or> \<not> ranges_overlap x mr"
    by (auto simp add: merge_ranges_wellformed_def list_all_iff)
  with overlap_of_common_cell[OF x(2) assms(3)] show "x = mr" by blast
qed

text \<open>
  C2. For every merge range of a sheet whose ranges satisfy the invariant of the data
  model (minimum not above maximum on both axes, no two different ranges overlapping),
  the merge resolution table marks as anchor the coordinate \<open>(min_row, min_col)\<close>, with
  rowspan \<open>max_row - min_row + 1\<close> and colspan \<open>max_col - min_col + 1\<close>; every other
  coordinate of the range is entered as non-anchor and the renderer emits no cell for it.
  For the range of rows 3 to 4 and columns 2 to 3 this gives the anchor (3,2) with
  rowspan 2 and colspan 2, and no cell for (3,3), (4,2) and (4,3).
\<close>

theorem merge_resolution_anchor:
  assumes "merge_ranges_wellformed ranges" and "mr \<in> set ranges"
  shows "build_merged_cells_dict ranges (coordinate (min_row mr) (min_col mr))
           = Some \<lparr> rowspan = max_row mr - min_row mr + 1,
                    colspan = max_col mr - min_col mr + 1,
                    is_main = True \<rparr>
         \<and> (\<forall>row col. in_merge_range mr row col \<and> (row, col) \<noteq> (min_row mr, min_col mr)
              \<longrightarrow> build_merged_cells_dict ranges (coordinate row col)
                    = Some \<lparr> rowspan = max_row mr - min_row mr + 1,
                             colspan = max_col mr - min_col mr + 1,
                             is_main = False \<rparr>
                  \<and> render_cell week_dates date_rows (build_merged_cells_dict ranges) ws row col
                    = None)"
proof (intro conjI allI impI)
  from assms have wf: "min_row mr \<le> max_row mr" "min_col mr \<le> max_col mr"
    by (auto simp add: merge_ranges_wellformed_def list_all_iff)
  then have a: "in_merge_range mr (min_row mr) (min_col mr)"
    by (simp add: in_merge_range_def)
  from build_apply[OF assms(2) a wellformed_unique[OF assms a]]
  show "build_merged_cells_dict ranges (coordinate (min_row mr) (min_col mr))
           = Some \<lparr> rowspan = max_row mr - min_row mr + 1,
                    colspan = max_col mr - min_col mr + 1,
                    is_main = True \<rparr>"
    by (simp add: range_entry_def)
next
  fix row col
  assume h: "in_merge_range mr row col \<and> (row, col) \<noteq> (min_row mr, min_col mr)"
  then have i: "in_merge_range mr row col" by simp
  from build_apply[OF assms(2) i wellformed_unique[OF assms i]] h
  show e: "build_merged_cells_dict ranges (coordinate row col)
                    = Some \<lparr> rowspan = max_row mr - min_row mr + 1,
                             colspan = max_col mr - min_col mr + 1,
                             is_main = False \<rparr>"
    by (auto simp add: range_entry_def)
  show "render_cell week_dates date_rows (build_merged_cells_dict ranges) ws row col = None"
    using e by (simp add: render_cell_def skip_cell_def Let_def)
qed

theorem merge_resolution_anchor_witness:
  "merge_ranges_wellformed [\<lparr>min_row = 3, max_row = 4, min_col = 2, max_col = 3\<rparr>]
   \<and> build_merged_cells_dict [\<lparr>min_row = 3, max_row = 4, min_col = 2, max_col = 3\<rparr>]
        (coordinate 3 2) = Some \<lparr>rowspan = 2, colspan = 2, is_main = True\<rparr>
   \<and> build_merged_cells_dict [\<lparr>min_row = 3, max_row = 4, min_col = 2, max_col = 3\<rparr>]
        (coordinate 3 3) = Some \<lparr>rowspan = 2, colspan = 2, is_main = False\<rparr>
   \<and> build_merged_cells_dict [\<lparr>min_row = 3, max_row = 4, min_col = 2, max_col = 3\<rparr>]
        (coordinate 4 2) = Some \<lparr>rowspan = 2, colspan = 2, is_main = False\<rparr>
   \<and> build_merged_cells_dict [\<lparr>min_row = 3, max_row = 4, min_col = 2, max_col = 3\<rparr>]
        (coordinate 4 3) = Some \<lparr>rowspan = 2, colspan = 2, is_main = False\<rparr>
   \<and> render_cell None {}
        (build_merged_cells_dict [\<lparr>min_row = 3, max_row = 4, min_col = 2, max_col = 3\<rparr>])
        empty_sheet 3 3 = None
   \<and> render_cell None {}
        (build_merged_cells_dict [\<lparr>min_row = 3, max_row = 4, min_col = 2, max_col = 3\<rparr>])
        empty_sheet 4 2 = None
   \<and> render_cell None {}
        (build_merged_cells_dict [\<lparr>min_row = 3, max_row = 4, min_col = 2, max_col = 3\<rparr>])
        empty_sheet 4 3 = None"
proof -
  let ?mr = "\<lparr>min_row = 3, max_row = 4, min_col = 2, max_col = 3\<rparr>"
  have h1: "merge_ranges_wellformed [?mr]"
    by (simp add: merge_ranges_wellformed_def)
  have h2: "?mr \<in> set [?mr]" by simp
  note t = merge_resolution_anchor[OF h1 h2, of None "{}" empty_sheet]
  have a: "build_merged_cells_dict [?mr] (coordinate 3 2)
      = Some \<lparr>rowspan = 2, colspan = 2, is_main = True\<rparr>"
    using t[THEN conjunct1] by simp
  have b: "build_merged_cells_dict [?mr] (coordinate row col)
        = Some \<lparr>rowspan = 2, colspan = 2, is_main = False\<rparr>
      \<and> render_cell None {} (build_merged_cells_dict [?mr]) empty_sheet row col = None"
    if "(row, col) \<in> {(3, 3), (4, 2), (4, 3)}" for row col
  proof -
    from that have "in_merge_range ?mr row col \<and> (row, col) \<noteq> (min_row ?mr, min_col ?mr)"
      by (auto simp add: in_merge_range_def)
    from t[THEN conjunct2, rule_format, OF this] show ?thesis by simp
  qed
  from h1 a b[of 3 3] b[of 4 2] b[of 4 3] show ?thesis by simp
qed

section \<open>A sheet name that is a week number out of range\<close>

lemma get_week_dates_overflow: "get_week_dates 1000000 2026 = Inl OverflowError"
  by (simp add: get_week_dates_def bind_err_def mk_date_def timedelta_def date_sub_def
      date_add_def weekday_def days_in_month_def days_before_month_def days_before_year_def
      DAYS_IN_MONTH_def DAYS_BEFORE_MONTH_def MINYEAR_def MAXYEAR_def MAXORDINAL_def)

lemma sheet_week_dates_overflow: "sheet_week_dates 2026 (Some ''1000000'') = Inl OverflowError"
  by (simp add: sheet_week_dates_def isdigit_def int_of_digits_def get_week_dates_overflow
      bind_err_def)

lemma sheet_to_html_overflow: "sheet_to_html 2026 ws (Some ''1000000'') = Inl OverflowError"
  by (simp add: sheet_to_html_def sheet_week_dates_overflow bind_err_def)

section \<open>Properties of the Sheet Render Cache\<close>

lemma convert_try_stat_fails:
  "st_mtime env = Inl e \<Longrightarrow> convert_try env s = (Inl e, s)"
  by (simp add: convert_try_def bind_st_def lift_st_def)

lemma convert_try_hit:
  "st_mtime env = Inr t \<Longrightarrow> sheets_cache s \<noteq> [] \<Longrightarrow> sheets_cache_mtime s = t
   \<Longrightarrow> convert_try env s = (Inr (sheets_cache s), s)"
  by (simp add: convert_try_def bind_st_def lift_st_def read_globals_def return_st_def)

lemma convert_try_miss:
  assumes "st_mtime env = Inr t" and "\<not> (sheets_cache s \<noteq> [] \<and> sheets_cache_mtime s = t)"
  shows "convert_try env s =
     (case load_workbook env of
        Inl e \<Rightarrow> (Inl e, s)
      | Inr wb \<Rightarrow>
         (case convert_sheets (now_year env) wb (map fst wb) [] of
            Inl e \<Rightarrow> (Inl e, s)
          | Inr sheets_html \<Rightarrow>
             (case wb_close env of
                Inl e \<Rightarrow> (Inl e, s)
              | Inr u \<Rightarrow> (Inr sheets_html,
                  s\<lparr>sheets_cache := sheets_html, sheets_cache_mtime := t\<rparr>))))"
proof -
  from assms(2) have c: "(sheets_cache s \<noteq> [] \<and> sheets_cache_mtime s = t) = False" by simp
  show ?thesis
    by (simp add: convert_try_def bind_st_def lift_st_def read_globals_def return_st_def
        assign_sheets_cache_def assign_sheets_cache_mtime_def assms(1) c del: de_Morgan_conj
        split: sum.splits)
qed

lemma convert_try_raise_keeps_state:
  assumes "convert_try env s = (Inl e, s')"
  shows "s' = s"
proof (cases "st_mtime env")
  case (Inl e0)
  with assms show ?thesis by (simp add: convert_try_stat_fails)
next
  case (Inr t)
  show ?thesis
  proof (cases "sheets_cache s \<noteq> [] \<and> sheets_cache_mtime s = t")
    case True
    with Inr assms show ?thesis by (simp add: convert_try_hit)
  next
    case False
    from convert_try_miss[OF Inr False] assms show ?thesis
      by (auto split: sum.splits)
  qed
qed

lemma convert_try_miss_render_all:
  assumes "st_mtime env = Inr t" and "\<not> (sheets_cache s \<noteq> [] \<and> sheets_cache_mtime s = t)"
  shows "convert_try env s =
     (case render_all env of
        Inl e \<Rightarrow> (Inl e, s)
      | Inr sheets_html \<Rightarrow>
          (Inr sheets_html, s\<lparr>sheets_cache := sheets_html, sheets_cache_mtime := t\<rparr>))"
  unfolding convert_try_miss[OF assms] render_all_def bind_err_def
  by (simp split: sum.splits)




lemma render_all_raises:
  "load_workbook env = Inl e \<Longrightarrow> render_all env = Inl e"
  "load_workbook env = Inr wb \<Longrightarrow> convert_sheets (now_year env) wb (map fst wb) [] = Inl e
   \<Longrightarrow> render_all env = Inl e"
  by (simp_all add: render_all_def bind_err_def)

text \<open>
  C5. If an exception occurs during a conversion pass, \<open>convert_excel_file\<close> returns the
  empty mapping and leaves both globals of the cache, the stored mapping and its time
  stamp, exactly as they were. That holds for every exception that the body of the
  \<open>try\<close> raises, and the body raises whenever the time stamp cannot be read or, on a
  cache miss, the workbook cannot be reopened, a sheet cannot be rendered or the workbook
  cannot be closed.
\<close>

theorem convert_excel_file_error_atomic:
  "(fst (convert_try env s) = Inl e \<longrightarrow> convert_excel_file env s = ([], s))
   \<and> (\<not> cache_hit env s
        \<and> (st_mtime env = Inl e
           \<or> (\<exists>t. st_mtime env = Inr t) \<and> render_all env = Inl e)
      \<longrightarrow> fst (convert_try env s) = Inl e \<and> convert_excel_file env s = ([], s))"
proof (rule conjI; rule impI)
  assume a: "fst (convert_try env s) = Inl e"
  then obtain s' where t: "convert_try env s = (Inl e, s')"
    by (cases "convert_try env s") simp
  from convert_try_raise_keeps_state[OF t] t show "convert_excel_file env s = ([], s)"
    by (simp add: convert_excel_file_def)
next
  assume h: "\<not> cache_hit env s
        \<and> (st_mtime env = Inl e \<or> (\<exists>t. st_mtime env = Inr t) \<and> render_all env = Inl e)"
  then have r: "fst (convert_try env s) = Inl e"
  proof (elim conjE disjE exE)
    assume "st_mtime env = Inl e"
    then show ?thesis by (simp add: convert_try_stat_fails)
  next
    fix t assume m: "\<not> cache_hit env s" "st_mtime env = Inr t" "render_all env = Inl e"
    then have "\<not> (sheets_cache s \<noteq> [] \<and> sheets_cache_mtime s = t)"
      by (simp add: cache_hit_def)
    from convert_try_miss_render_all[OF m(2) this] m(3) show ?thesis by simp
  qed
  then obtain s' where t: "convert_try env s = (Inl e, s')"
    by (cases "convert_try env s") simp
  from convert_try_raise_keeps_state[OF t] t r
  show "fst (convert_try env s) = Inl e \<and> convert_excel_file env s = ([], s)"
    by (simp add: convert_excel_file_def)
qed

theorem convert_excel_file_error_atomic_witness:
  "\<not> cache_hit \<lparr> st_mtime = Inr (5::int), load_workbook = Inr [(''1000000'', empty_sheet)],
                  wb_close = Inr (), now_year = 2026 \<rparr>
               \<lparr> sheets_cache = [(''45'', ''<table></table>'')], sheets_cache_mtime = 4 \<rparr>
   \<and> render_all \<lparr> st_mtime = Inr (5::int), load_workbook = Inr [(''1000000'', empty_sheet)],
                  wb_close = Inr (), now_year = 2026 \<rparr> = Inl OverflowError
   \<and> convert_excel_file
        \<lparr> st_mtime = Inr (5::int), load_workbook = Inr [(''1000000'', empty_sheet)],
          wb_close = Inr (), now_year = 2026 \<rparr>
        \<lparr> sheets_cache = [(''45'', ''<table></table>'')], sheets_cache_mtime = 4 \<rparr>
     = ([], \<lparr> sheets_cache = [(''45'', ''<table></table>'')], sheets_cache_mtime = 4 \<rparr>)"
proof -
  let ?env = "\<lparr> st_mtime = Inr (5::int), load_workbook = Inr [(''1000000'', empty_sheet)],
                 wb_close = Inr (), now_year = 2026 \<rparr>"
  let ?s = "\<lparr> sheets_cache = [(''45'', ''<table></table>'')], sheets_cache_mtime = (4::int) \<rparr>"
  have h1: "\<not> cache_hit ?env ?s" by (simp add: cache_hit_def)
  have h2: "render_all ?env = Inl OverflowError"
    by (simp add: render_all_def bind_err_def sheet_to_html_overflow)
  have h3: "\<exists>t. st_mtime ?env = Inr t" by simp
  from convert_excel_file_error_atomic[of ?env ?s OverflowError] h1 h2 h3
  show ?thesis by blast
qed



section \<open>Properties of the Grid Renderer\<close>

lemma date_zone_column:
  "date_zone (b \<or> (c = 1 \<and> wd \<noteq> None)) (Some c) wd r
   = date_zone (c = 1 \<and> wd \<noteq> None) (Some c) wd r"
  by (auto simp add: date_zone_def split: option.splits)

lemma format_cell_value_column:
  "format_cell_value v r (Some c) wd (b \<or> (c = 1 \<and> wd \<noteq> None))
   = format_cell_value v r (Some c) wd (c = 1 \<and> wd \<noteq> None)"
  unfolding format_cell_value_def format_cell_value_try_def date_zone_column ..

lemma render_cell_cong:
  assumes "ws_cell ws1 row col = ws_cell ws2 row col"
    and "d1 (coordinate row col) = d2 (coordinate row col)"
  shows "render_cell wd dr1 d1 ws1 row col = render_cell wd dr2 d2 ws2 row col"
  unfolding render_cell_def skip_cell_def Let_def format_cell_value_column assms ..

lemma map_filter_cong:
  "\<forall>x \<in> set xs. f x = g x \<Longrightarrow> List.map_filter f xs = List.map_filter g xs"
  by (induction xs) (auto simp add: List.map_filter_simps split: option.splits)

lemma render_row_cong:
  assumes "\<forall>col \<in> {1 .. max_column}.
      ws_cell ws1 row col = ws_cell ws2 row col
      \<and> d1 (coordinate row col) = d2 (coordinate row col)"
  shows "render_row wd dr1 d1 ws1 row = render_row wd dr2 d2 ws2 row"
proof -
  have "List.map_filter (render_cell wd dr1 d1 ws1 row) [1 .. max_column]
      = List.map_filter (render_cell wd dr2 d2 ws2 row) [1 .. max_column]"
  proof (rule map_filter_cong, rule ballI)
    fix col assume "col \<in> set [1 .. max_column]"
    with assms show "render_cell wd dr1 d1 ws1 row col = render_cell wd dr2 d2 ws2 row col"
      by (intro render_cell_cong) simp_all
  qed
  then show ?thesis by (simp add: render_row_def)
qed

lemma sheet_html_lines_cong:
  assumes "window_agree ws1 ws2"
  shows "sheet_html_lines wd ws1 = sheet_html_lines wd ws2"
proof -
  have "map (render_row wd (detect_date_rows ws1) (build_merged_cells_dict (merged_ranges ws1)) ws1)
          [1 .. max_row_bound]
      = map (render_row wd (detect_date_rows ws2) (build_merged_cells_dict (merged_ranges ws2)) ws2)
          [1 .. max_row_bound]"
  proof (rule map_cong[OF refl])
    fix row assume "row \<in> set [1 .. max_row_bound]"
    with assms show "render_row wd (detect_date_rows ws1)
          (build_merged_cells_dict (merged_ranges ws1)) ws1 row
        = render_row wd (detect_date_rows ws2)
          (build_merged_cells_dict (merged_ranges ws2)) ws2 row"
      by (intro render_row_cong) (simp add: window_agree_def)
  qed
  then show ?thesis by (simp only: sheet_html_lines_def Let_def)
qed

text \<open>
  C7 (as amended). The rendered output of a sheet depends only on what the window of rows
  1 to 29 and columns 1 to 20 holds: for two sheets of the same name, rendered in the same
  year, whose cells agree inside the window and whose merge resolution tables agree on the
  coordinates of the window, the result of \<open>sheet_to_html\<close> is identical. Cells outside
  the window, and the used dimension \<open>max_row\<close>, contribute nothing. The merge ranges are
  not clipped, though: an anchor inside the window carries the full rowspan and colspan of
  its range, also when the range reaches beyond row 29 or column 20.
\<close>

theorem sheet_to_html_window:
  assumes "window_agree ws1 ws2"
  shows "sheet_to_html year ws1 sheet_name = sheet_to_html year ws2 sheet_name"
  by (simp add: sheet_to_html_def sheet_html_lines_cong[OF assms])


lemma join_cons: "xs \<noteq> [] \<Longrightarrow> join sep (x # xs) = x @ sep @ join sep xs"
  by (cases xs) simp_all

lemma upto_from_1: "1 \<le> n \<Longrightarrow> [1 .. n] = 1 # [2 .. n]"
  by (simp add: upto_rec1)

lemma sheet_html_lines_first_cell:
  assumes "render_cell wd (detect_date_rows ws) (build_merged_cells_dict (merged_ranges ws)) ws 1 1
           = Some td"
  shows "\<exists>rest. rest \<noteq> [] \<and> sheet_html_lines wd ws
           = (''<table class='' @ dquote @ ''excel-table'' @ dquote @ ''>'')
             # ''  <tr>'' # td # rest"
proof -
  have c: "[1 .. max_column] = 1 # [2 .. max_column]"
    by (simp add: max_column_def upto_from_1)
  have r: "[1 .. max_row_bound] = 1 # [2 .. max_row_bound]"
    by (simp add: max_row_bound_def upto_from_1)
  show ?thesis
    unfolding sheet_html_lines_def Let_def r
    by (simp add: render_row_def c List.map_filter_simps assms)
qed

lemma empty_cell_td:
  "format_cell_value (cell_value empty_cell) (Some 1) (Some 1) None b = []"
  "get_cell_style empty_cell = []"
  by (simp_all add: empty_cell_def format_cell_value_def format_cell_value_try_def
      is_formula_def is_blank_def date_zone_def get_cell_style_def cell_styles_def Let_def)

lemma str_int_35: "str_int 35 = ''35''"
  by code_simp

lemma str_int_29: "str_int 29 = ''29''"
  by code_simp

lemma single_range_anchor:
  "min_row mr \<le> max_row mr \<Longrightarrow> min_col mr \<le> max_col mr
   \<Longrightarrow> build_merged_cells_dict [mr] (coordinate (min_row mr) (min_col mr))
       = Some (range_entry mr (min_row mr, min_col mr))"
  by (rule build_apply) (simp_all add: in_merge_range_def)

lemma tall_merge_first_cell:
  assumes "1 < n"
  shows "render_cell None dr
           (build_merged_cells_dict [\<lparr>min_row = 1, max_row = n, min_col = 1, max_col = 1\<rparr>])
           (empty_sheet\<lparr>merged_ranges := ms\<rparr>) 1 1
         = Some (''    <td rowspan='' @ dquote @ str_int n @ dquote @ ''></td>'')"
proof -
  let ?mr = "\<lparr>min_row = 1, max_row = n, min_col = 1, max_col = 1\<rparr>"
  from assms have "build_merged_cells_dict [?mr] (coordinate (min_row ?mr) (min_col ?mr))
       = Some (range_entry ?mr (min_row ?mr, min_col ?mr))"
    by (intro single_range_anchor) simp_all
  then have d: "build_merged_cells_dict [?mr] (coordinate 1 1)
      = Some \<lparr>rowspan = n, colspan = 1, is_main = True\<rparr>"
    by (simp add: range_entry_def)
  have c: "ws_cell empty_sheet 1 1 = empty_cell"
    by (simp add: empty_sheet_def)
  from assms show ?thesis
    by (simp add: render_cell_def skip_cell_def d c empty_cell_td Let_def)
qed

text \<open>
  The claim as stated fails: two sheets with the same cells everywhere, one with a merge
  range of rows 1 to 35 in column 1 and one with rows 1 to 29, differ in nothing inside the
  window but render differently (rowspan 35 against rowspan 29).
\<close>

theorem sheet_to_html_window_counterexample:
  "ws_cell (empty_sheet\<lparr>merged_ranges := [\<lparr>min_row = 1, max_row = 35, min_col = 1, max_col = 1\<rparr>]\<rparr>)
     = ws_cell (empty_sheet\<lparr>merged_ranges := [\<lparr>min_row = 1, max_row = 29, min_col = 1, max_col = 1\<rparr>]\<rparr>)
   \<and> sheet_to_html 2026
        (empty_sheet\<lparr>merged_ranges := [\<lparr>min_row = 1, max_row = 35, min_col = 1, max_col = 1\<rparr>]\<rparr>)
        None
     \<noteq> sheet_to_html 2026
        (empty_sheet\<lparr>merged_ranges := [\<lparr>min_row = 1, max_row = 29, min_col = 1, max_col = 1\<rparr>]\<rparr>)
        None"
proof -
  let ?a = "empty_sheet\<lparr>merged_ranges := [\<lparr>min_row = 1, max_row = 35, min_col = 1, max_col = 1\<rparr>]\<rparr>"
  let ?b = "empty_sheet\<lparr>merged_ranges := [\<lparr>min_row = 1, max_row = 29, min_col = 1, max_col = 1\<rparr>]\<rparr>"
  let ?hdr = "''<table class='' @ dquote @ ''excel-table'' @ dquote @ ''>''"
  have "render_cell None (detect_date_rows ?a) (build_merged_cells_dict (merged_ranges ?a)) ?a 1 1
      = Some (''    <td rowspan='' @ dquote @ str_int 35 @ dquote @ ''></td>'')"
    using tall_merge_first_cell[of 35] by simp
  from sheet_html_lines_first_cell[OF this] obtain ra where
    a: "ra \<noteq> []" "sheet_html_lines None ?a
        = ?hdr # ''  <tr>'' # (''    <td rowspan='' @ dquote @ str_int 35 @ dquote @ ''></td>'') # ra"
    by blast
  have "render_cell None (detect_date_rows ?b) (build_merged_cells_dict (merged_ranges ?b)) ?b 1 1
      = Some (''    <td rowspan='' @ dquote @ str_int 29 @ dquote @ ''></td>'')"
    using tall_merge_first_cell[of 29] by simp
  from sheet_html_lines_first_cell[OF this] obtain rb where
    b: "rb \<noteq> []" "sheet_html_lines None ?b
        = ?hdr # ''  <tr>'' # (''    <td rowspan='' @ dquote @ str_int 29 @ dquote @ ''></td>'') # rb"
    by blast
  have "sheet_to_html 2026 ?a None \<noteq> sheet_to_html 2026 ?b None"
    using a(1) b(1)
    by (simp add: sheet_to_html_def sheet_week_dates_def bind_err_def a(2) b(2) join_cons
        str_int_35 str_int_29 dquote_def)
  moreover have "ws_cell ?a = ws_cell ?b" by simp
  ultimately show ?thesis by blast
qed


theorem sheet_to_html_window_witness:
  "window_agree empty_sheet
     \<lparr> ws_cell = (\<lambda>row col. if row = 35 \<or> col = 25
                               then empty_cell\<lparr>cell_value := VStr ''outside''\<rparr>
                               else empty_cell),
       ws_max_row = 35, merged_ranges = [] \<rparr>
   \<and> sheet_to_html 2026 empty_sheet (Some ''45'')
     = sheet_to_html 2026
         \<lparr> ws_cell = (\<lambda>row col. if row = 35 \<or> col = 25
                                   then empty_cell\<lparr>cell_value := VStr ''outside''\<rparr>
                                   else empty_cell),
           ws_max_row = 35, merged_ranges = [] \<rparr>
         (Some ''45'')"
proof -
  let ?ws = "\<lparr> ws_cell = (\<lambda>row col. if row = 35 \<or> col = 25
                               then empty_cell\<lparr>cell_value := VStr ''outside''\<rparr>
                               else empty_cell),
       ws_max_row = 35, merged_ranges = [] \<rparr>"
  have h: "window_agree empty_sheet ?ws"
    by (auto simp add: window_agree_def empty_sheet_def max_row_bound_def max_column_def)
  from sheet_to_html_window[OF h, of 2026 "Some ''45''"] h show ?thesis by blast
qed














end
